theory Spec2Isabelle
  imports Complex_Main "HOL-Library.Word" "HOL-Library.Sublist"
begin

section \<open>The deployment orchestrator of the blockchain service (package \<open>eth\<close>)\<close>

text \<open>
  The Go package \<open>eth\<close> compiles Solidity source, builds, signs and submits a
  contract-creation transaction, looks transactions up by hash and compares compiled with
  deployed bytecode. Everything it calls outside the repository (the operating system, the
  \<open>solc\<close> toolchain, the go-ethereum library and the chain node behind
  \<open>ethclient.Client\<close>) is a parameter of the model: the record \<open>env\<close> holds what the
  host and the libraries answer, the record \<open>ethclient\<close> what the node answers. Every
  call to the host, to the node and to the signer is written to a trace, so that a theorem
  can say which calls a run made and which it did not.
\<close>

subsection \<open>Values\<close>

type_synonym byte = "8 word"
type_synonym uint64 = "64 word"
type_synonym address = "byte list"
type_synonym hash = "byte list"
type_synonym private_key = "byte list"
type_synonym public_key = "byte list"

text \<open>
  Go errors. \<open>NotFound\<close> is the sentinel \<open>ethereum.NotFound\<close> and
  \<open>ErrNoDocuments\<close> the sentinel \<open>mongo.ErrNoDocuments\<close>, both compared by identity
  in the source; \<open>New\<close> is \<open>errors.New\<close> (also used for the errors of the libraries),
  and \<open>Errorf p err\<close> is \<open>fmt.Errorf(p + "%v", err)\<close>. \<open>Panic\<close> stands for a
  run-time panic (a nil pointer dereference), after which the function does not return.
\<close>

datatype go_error = NotFound | ErrNoDocuments | New string | Errorf string go_error | Panic

text \<open>Values of type \<open>interface{}\<close>, as JSON decoding produces them.\<close>

datatype any = ANil | ABool bool | ANumber int | AString string | AList "any list"

text \<open>
  \<open>big.Float\<close> arithmetic is kept symbolic: a value is the expression that built it, and
  \<open>Float64\<close> is its conversion to a \<open>float64\<close>. The rounding of each operation
  is the library's. \<open>Float64_zero\<close> is the zero value of a \<open>float64\<close> field.
\<close>

datatype bigfloat = SetInt int | SetUint64 uint64 | Mul bigfloat bigfloat | Quo bigfloat bigfloat

datatype float64 = Float64_zero | Float64 bigfloat


text \<open>
  \<open>big.Int\<close> block numbers are natural numbers; \<open>Uint64()\<close> keeps their low 64 bits
  and \<open>Int64()\<close> reads the same bits as a signed number.
\<close>

definition Uint64 :: "nat \<Rightarrow> uint64" where
  "Uint64 n = word_of_nat n"

definition Int64 :: "nat \<Rightarrow> int" where
  "Int64 n = sint (word_of_nat n :: uint64)"

subsection \<open>Structures\<close>

text \<open>\<open>solc.Contract\<close>: the hex text of the bytecode and the ABI definition.\<close>

record Contract =
  Code :: string
  AbiDefinition :: any

text \<open>
  The Go map \<open>map[string]*solc.Contract\<close>, as the list of its entries. The order in
  which a \<open>range\<close> statement visits them is chosen by the Go runtime at each loop
  (\<open>range_order\<close> below).
\<close>

type_synonym contract_map = "(string \<times> Contract) list"

text \<open>\<open>types.DeploymentRequest\<close> (package \<open>pkg/types\<close>).\<close>

record DeploymentRequest =
  ContractCode :: string
  ConstructorArguments :: string
  ChainID :: int
  GasLimit :: uint64
  Metadata :: "(string \<rightharpoonup> any) option"

record DeploymentResult =
  TxHash :: string
  ContractAddress :: string
  BlockNumber :: int
  GasUsed :: uint64
  GasPrice :: "int option"
  Cost :: float64

record TransactionStatus =
  Status :: string
  BlockNumber_st :: uint64
  Confirmations :: uint64
  GasUsed_st :: uint64
  Cost_st :: float64

text \<open>A contract-creation transaction (\<open>types.NewContractCreation\<close>) and its signed form.\<close>

record Transaction =
  tx_nonce :: uint64
  tx_value :: int
  tx_gasLimit :: uint64
  tx_gasPrice :: int
  tx_data :: "byte list"

record SignedTx =
  signed_tx :: Transaction
  signed_chainID :: int
  signed_key :: private_key

text \<open>The fields of \<open>types.Receipt\<close> and \<open>types.Header\<close> that the code reads.\<close>

record Receipt =
  Status_r :: uint64
  GasUsed_r :: uint64
  BlockNumber_r :: nat
  ContractAddress_r :: address

record Header =
  Number :: nat

text \<open>
  Package \<open>contracts\<close>: the request and the response of the HTTP handler, the fields
  of the stored \<open>Contract\<close> document that the handler reads, and the deployment
  information it writes back (without the time stamp).
\<close>

record Service_DeploymentRequest =
  ContractID :: string
  DeployerID :: string
  ChainID_s :: int
  GasLimit_s :: uint64
  Constructor :: string

record DeploymentResponse =
  TxHash_resp :: string
  ContractAddress_resp :: string
  Cost_resp :: float64
  BlockNumber_resp :: int

record Contract_doc =
  OwnerID :: string
  ContractCode_doc :: string

record DeploymentInfo =
  info_tx_hash :: string
  info_contract_address :: string
  info_block_number :: int
  info_chain_id :: int
  info_deployer_id :: string
  info_gas_used :: uint64
  info_gas_price :: "int option"

subsection \<open>The world outside the repository\<close>

text \<open>The chain node, as \<open>ethclient.Client\<close> reaches it.\<close>

record ethclient =
  PendingNonceAt :: "address \<Rightarrow> go_error + uint64"
  SuggestGasPrice :: "go_error + int"
  SendTransaction :: "SignedTx \<Rightarrow> go_error option"
  WaitMined :: "SignedTx \<Rightarrow> go_error + Receipt"
  TransactionReceipt :: "hash \<Rightarrow> go_error + Receipt"
  HeaderByNumber :: "go_error + Header"
  TransactionByHash :: "hash \<Rightarrow> go_error + Transaction"
  CodeAt :: "address \<Rightarrow> go_error + byte list"

text \<open>\<open>eth.Client\<close>: the node connection and the chain ID resolved by \<open>NewEthClient\<close>.\<close>

record Client =
  client :: ethclient
  chainID :: int

text \<open>
  The host, the toolchain and the library functions. An \<open>option\<close> field is the error a
  call returns (\<open>None\<close>: it succeeded). \<open>CompileSolidity\<close> is given the text the
  temporary file holds. \<open>range_order e n m\<close> is the order in which the \<open>n\<close>-th
  \<open>range\<close> statement of a function visits the map \<open>m\<close>.
\<close>

record env =
  CreateTemp :: "go_error option"
  WriteString :: "string \<Rightarrow> go_error option"
  Close :: "go_error option"
  CompileSolidity :: "string \<Rightarrow> go_error + contract_map"
  range_order :: "nat \<Rightarrow> contract_map \<Rightarrow> contract_map"
  Getenv :: "string \<Rightarrow> string"
  HexToECDSA :: "string \<Rightarrow> go_error + private_key"
  PublicECDSA :: "private_key \<Rightarrow> public_key option"
  PubkeyToAddress :: "public_key \<Rightarrow> address"
  Marshal :: "any \<Rightarrow> go_error + string"
  abi_JSON :: "string \<Rightarrow> go_error + string"
  Pack :: "string \<Rightarrow> string \<Rightarrow> any list \<Rightarrow> go_error + byte list"
  Unmarshal :: "string \<Rightarrow> go_error + any list"
  FromHex :: "string \<Rightarrow> byte list"
  NewKeyedTransactorWithChainID :: "private_key \<Rightarrow> int \<Rightarrow> go_error option"
  SignTx :: "Transaction \<Rightarrow> int \<Rightarrow> private_key \<Rightarrow> go_error option"
  Hash_Hex :: "SignedTx \<Rightarrow> string"
  Address_Hex :: "address \<Rightarrow> string"
  HexToHash :: "string \<Rightarrow> hash"
  HexToAddress :: "string \<Rightarrow> address"

subsection \<open>Calls and their trace\<close>

datatype call =
    Call_CreateTemp
  | Call_WriteString string
  | Call_Close
  | Call_Remove
  | Call_CompileSolidity string
  | Call_Getenv string
  | Call_PendingNonceAt address
  | Call_SuggestGasPrice
  | Call_SignTx Transaction int private_key
  | Call_SendTransaction SignedTx
  | Call_WaitMined SignedTx
  | Call_TransactionReceipt hash
  | Call_HeaderByNumber
  | Call_TransactionByHash hash
  | Call_CodeAt address
  | Call_FindOne string
  | Call_UpdateOne string DeploymentInfo

text \<open>
  A computation yields the calls it made, in order, and an error (\<open>Inl\<close>) or a value
  (\<open>Inr\<close>). \<open>io_bind\<close> stops at the first error, as \<open>if err != nil { return }\<close>
  does; \<open>io_wrap p\<close> is the \<open>fmt.Errorf\<close> that wraps the error on its way out.
\<close>

type_synonym 'a io = "call list \<times> (go_error + 'a)"

definition io_return :: "'a \<Rightarrow> 'a io" where
  "io_return x = ([], Inr x)"

definition io_fail :: "go_error \<Rightarrow> 'a io" where
  "io_fail err = ([], Inl err)"

definition io_call :: "call \<Rightarrow> go_error + 'a \<Rightarrow> 'a io" where
  "io_call c r = ([c], r)"

definition io_lift :: "go_error + 'a \<Rightarrow> 'a io" where
  "io_lift r = ([], r)"

definition io_bind :: "'a io \<Rightarrow> ('a \<Rightarrow> 'b io) \<Rightarrow> 'b io" where
  "io_bind m f =
     (case m of
        (t, Inl err) \<Rightarrow> (t, Inl err)
      | (t, Inr x) \<Rightarrow> (case f x of (t', r) \<Rightarrow> (t @ t', r)))"

definition io_wrap :: "string \<Rightarrow> 'a io \<Rightarrow> 'a io" where
  "io_wrap p m =
     (case m of
        (t, Inl err) \<Rightarrow> (t, Inl (Errorf p err))
      | (t, Inr x) \<Rightarrow> (t, Inr x))"

definition io_check :: "go_error option \<Rightarrow> unit io" where
  "io_check r = (case r of Some err \<Rightarrow> ([], Inl err) | None \<Rightarrow> ([], Inr ()))"

definition io_call_check :: "call \<Rightarrow> go_error option \<Rightarrow> unit io" where
  "io_call_check c r = (case r of Some err \<Rightarrow> ([c], Inl err) | None \<Rightarrow> ([c], Inr ()))"

subsection \<open>CompileContract\<close>

text \<open>
  The deferred \<open>os.Remove\<close> runs on every return after the temporary file was created.
\<close>

definition CompileContract :: "env \<Rightarrow> string \<Rightarrow> contract_map io" where
  "CompileContract e sourceCode =
     (case CreateTemp e of
        Some err \<Rightarrow>
          ([Call_CreateTemp], Inl (Errorf ''failed to create temporary file: '' err))
      | None \<Rightarrow>
         (case WriteString e sourceCode of
            Some err \<Rightarrow>
              ([Call_CreateTemp, Call_WriteString sourceCode, Call_Remove],
               Inl (Errorf ''failed to write to temporary file: '' err))
          | None \<Rightarrow>
             (case Close e of
                Some err \<Rightarrow>
                  ([Call_CreateTemp, Call_WriteString sourceCode, Call_Close, Call_Remove],
                   Inl (Errorf ''failed to close temporary file: '' err))
              | None \<Rightarrow>
                 (case CompileSolidity e sourceCode of
                    Inl err \<Rightarrow>
                      ([Call_CreateTemp, Call_WriteString sourceCode, Call_Close,
                        Call_CompileSolidity sourceCode, Call_Remove],
                       Inl (Errorf ''compilation failed: '' err))
                  | Inr contracts \<Rightarrow>
                      ([Call_CreateTemp, Call_WriteString sourceCode, Call_Close,
                        Call_CompileSolidity sourceCode, Call_Remove],
                       Inr contracts)))))"

subsection \<open>GetPrivateKey\<close>

definition GetPrivateKey :: "env \<Rightarrow> private_key io" where
  "GetPrivateKey e =
     (let privateKeyHex = Getenv e ''ETH_PRIVATE_KEY'' in
      if privateKeyHex = ''''
      then ([Call_Getenv ''ETH_PRIVATE_KEY''],
            Inl (New ''ETH_PRIVATE_KEY environment variable not set''))
      else
        (let privateKeyHex =
               (if prefix ''0x'' privateKeyHex then drop 2 privateKeyHex else privateKeyHex)
         in case HexToECDSA e privateKeyHex of
              Inl err \<Rightarrow>
                ([Call_Getenv ''ETH_PRIVATE_KEY''], Inl (Errorf ''invalid private key: '' err))
            | Inr privateKey \<Rightarrow> ([Call_Getenv ''ETH_PRIVATE_KEY''], Inr privateKey)))"

subsection \<open>DeployContract\<close>

text \<open>
  The choice of the contract to deploy (the two loops over the map of compiled contracts).
  The result is the pair of the variables \<open>contractName\<close> and \<open>compiledContract\<close>
  after the loops; \<open>None\<close> is the nil pointer. \<open>strings.Contains\<close> is \<open>sublist\<close>.
\<close>

definition name_hint :: "DeploymentRequest \<Rightarrow> string" where
  "name_hint req =
     (case Metadata req of
        None \<Rightarrow> ''''
      | Some m \<Rightarrow> (case m ''contractName'' of Some (AString name) \<Rightarrow> name | _ \<Rightarrow> ''''))"

definition select_contract ::
  "env \<Rightarrow> DeploymentRequest \<Rightarrow> contract_map \<Rightarrow> string \<times> Contract option" where
  "select_contract e req contracts =
     (let contractName = name_hint req;
          (contractName, compiledContract) =
            (if contractName \<noteq> ''''
             then (case find (\<lambda>(name, contract). sublist contractName name)
                          (range_order e 0 contracts) of
                     Some (name, contract) \<Rightarrow> (name, Some contract)
                   | None \<Rightarrow> (contractName, None))
             else (contractName, None))
      in if compiledContract = None
         then (case range_order e 1 contracts of
                 (name, contract) # rest \<Rightarrow> (name, Some contract)
               | [] \<Rightarrow> (contractName, None))
         else (contractName, compiledContract))"

text \<open>
  Of the transactor \<open>auth\<close> only the gas limit is read afterwards; it is the gas limit of
  the request.
\<close>

definition DeployContract :: "env \<Rightarrow> Client \<Rightarrow> DeploymentRequest \<Rightarrow> DeploymentResult io" where
  "DeployContract e c req =
     io_bind (io_wrap ''compilation failed: '' (CompileContract e (ContractCode req))) (\<lambda>contracts.
     if length contracts = 0 then io_fail (New ''no contracts found in source code'')
     else case select_contract e req contracts of
       (contractName, None) \<Rightarrow> io_fail Panic
     | (contractName, Some compiledContract) \<Rightarrow>
     io_bind (io_wrap ''failed to marshal ABI: ''
                (io_lift (Marshal e (AbiDefinition compiledContract)))) (\<lambda>contractAbi.
     io_bind (io_wrap ''failed to parse ABI: '' (io_lift (abi_JSON e contractAbi))) (\<lambda>parsedAbi.
     let bytecode = FromHex e (Code compiledContract) in
     if length bytecode = 0 then io_fail (New ''empty bytecode'')
     else
     io_bind (io_wrap ''failed to get private key: '' (GetPrivateKey e)) (\<lambda>privateKey.
     let chain_id = (if ChainID req = 0 then chainID c else ChainID req) in
     case PublicECDSA e privateKey of
       None \<Rightarrow> io_fail (New ''error casting public key to ECDSA'')
     | Some publicKeyECDSA \<Rightarrow>
     let fromAddress = PubkeyToAddress e publicKeyECDSA in
     io_bind (io_wrap ''failed to get nonce: ''
                (io_call (Call_PendingNonceAt fromAddress)
                   (PendingNonceAt (client c) fromAddress))) (\<lambda>nonce.
     io_bind (io_wrap ''failed to suggest gas price: ''
                (io_call Call_SuggestGasPrice (SuggestGasPrice (client c)))) (\<lambda>gasPrice.
     io_bind (io_wrap ''failed to create transactor: ''
                (io_check (NewKeyedTransactorWithChainID e privateKey chain_id))) (\<lambda>auth.
     let auth_GasLimit = GasLimit req in
     io_bind (if ConstructorArguments req \<noteq> ''''
              then io_wrap ''failed to parse constructor arguments: ''
                     (io_lift (Unmarshal e (ConstructorArguments req)))
              else io_return []) (\<lambda>constructorArgs.
     io_bind (if length constructorArgs > 0
              then io_bind (io_wrap ''failed to encode constructor arguments: ''
                              (io_lift (Pack e parsedAbi '''' constructorArgs)))
                     (\<lambda>packed. io_return (bytecode @ packed))
              else io_return bytecode) (\<lambda>data.
     let tx = \<lparr>tx_nonce = nonce, tx_value = 0, tx_gasLimit = auth_GasLimit,
               tx_gasPrice = gasPrice, tx_data = data\<rparr> in
     io_bind (io_wrap ''failed to sign transaction: ''
                (io_call_check (Call_SignTx tx chain_id privateKey)
                   (SignTx e tx chain_id privateKey))) (\<lambda>signed.
     let signedTx = \<lparr>signed_tx = tx, signed_chainID = chain_id, signed_key = privateKey\<rparr> in
     io_bind (io_wrap ''failed to send transaction: ''
                (io_call_check (Call_SendTransaction signedTx)
                   (SendTransaction (client c) signedTx))) (\<lambda>sent.
     case WaitMined (client c) signedTx of
       Inl err \<Rightarrow>
         ([Call_WaitMined signedTx],
          Inr \<lparr>TxHash = Hash_Hex e signedTx, ContractAddress = '''', BlockNumber = 0,
               GasUsed = 0, GasPrice = None, Cost = Float64_zero\<rparr>)
     | Inr receipt \<Rightarrow>
         (let gasUsed = GasUsed_r receipt;
              gasCost = Mul (SetInt gasPrice) (SetUint64 gasUsed);
              weiPerEth = SetInt (10 ^ 18);
              costInEth = Quo gasCost weiPerEth;
              ethCost = Float64 costInEth
          in ([Call_WaitMined signedTx],
              Inr \<lparr>TxHash = Hash_Hex e signedTx,
                   ContractAddress = Address_Hex e (ContractAddress_r receipt),
                   BlockNumber = Int64 (BlockNumber_r receipt),
                   GasUsed = GasUsed_r receipt,
                   GasPrice = Some gasPrice,
                   Cost = ethCost\<rparr>)))))))))))))"

subsection \<open>GetTransactionStatus\<close>

definition GetTransactionStatus :: "env \<Rightarrow> Client \<Rightarrow> string \<Rightarrow> TransactionStatus io" where
  "GetTransactionStatus e c txHash =
     (let h = HexToHash e txHash in
      case TransactionReceipt (client c) h of
        Inl err \<Rightarrow>
          if err = NotFound
          then ([Call_TransactionReceipt h],
                Inr \<lparr>Status = ''pending'', BlockNumber_st = 0, Confirmations = 0,
                     GasUsed_st = 0, Cost_st = Float64_zero\<rparr>)
          else ([Call_TransactionReceipt h],
                Inl (Errorf ''failed to get transaction receipt: '' err))
      | Inr receipt \<Rightarrow>
         (case HeaderByNumber (client c) of
            Inl err \<Rightarrow>
              ([Call_TransactionReceipt h, Call_HeaderByNumber],
               Inl (Errorf ''failed to get current block header: '' err))
          | Inr header \<Rightarrow>
             (let confirmations = Uint64 (Number header) - Uint64 (BlockNumber_r receipt) in
              case TransactionByHash (client c) h of
                Inl err \<Rightarrow>
                  ([Call_TransactionReceipt h, Call_HeaderByNumber, Call_TransactionByHash h],
                   Inl (Errorf ''failed to get transaction: '' err))
              | Inr tx \<Rightarrow>
                 (let gasPrice = tx_gasPrice tx;
                      gasUsed = GasUsed_r receipt;
                      gasCost = Mul (SetInt gasPrice) (SetUint64 gasUsed);
                      weiPerEth = SetInt (10 ^ 18);
                      costInEth = Quo gasCost weiPerEth;
                      ethCost = Float64 costInEth;
                      status = (if Status_r receipt = 1 then ''success'' else ''failed'')
                  in ([Call_TransactionReceipt h, Call_HeaderByNumber, Call_TransactionByHash h],
                      Inr \<lparr>Status = status,
                           BlockNumber_st = Uint64 (BlockNumber_r receipt),
                           Confirmations = confirmations,
                           GasUsed_st = GasUsed_r receipt,
                           Cost_st = ethCost\<rparr>)))))"

subsection \<open>VerifyContractSource\<close>

text \<open>
  The loop returns true at the first artifact, in the order of the \<open>range\<close>, whose
  decoded bytecode is a prefix of the deployed bytecode, provided the latter is not empty.
  The parameter \<open>constructorArgs\<close> is not read.
\<close>

fun verify_loop :: "env \<Rightarrow> byte list \<Rightarrow> contract_map \<Rightarrow> bool" where
  "verify_loop e deployedBytecode [] = False"
| "verify_loop e deployedBytecode ((name, contract) # rest) =
     (let compiledBytecode = FromHex e (Code contract) in
      if length deployedBytecode > 0 \<and> prefix compiledBytecode deployedBytecode
      then True
      else verify_loop e deployedBytecode rest)"

definition VerifyContractSource ::
  "env \<Rightarrow> Client \<Rightarrow> string \<Rightarrow> string \<Rightarrow> string \<Rightarrow> bool io" where
  "VerifyContractSource e c contractAddress sourceCode constructorArgs =
     io_bind (io_wrap ''compilation failed: '' (CompileContract e sourceCode)) (\<lambda>contracts.
       let addr = HexToAddress e contractAddress in
       io_bind (io_wrap ''failed to get deployed bytecode: ''
                  (io_call (Call_CodeAt addr) (CodeAt (client c) addr))) (\<lambda>deployedBytecode.
         io_return (verify_loop e deployedBytecode (range_order e 0 contracts))))"

subsection \<open>The HTTP handler Service.DeployContract (package \<open>contracts\<close>)\<close>

text \<open>The MongoDB collection and the service that holds it with the \<open>eth.Client\<close>.\<close>

record collection =
  FindOne :: "string \<Rightarrow> go_error + Contract_doc"
  UpdateOne :: "string \<Rightarrow> DeploymentInfo \<Rightarrow> go_error + nat"

record Service =
  contracts :: collection
  ethClient :: Client

text \<open>An HTTP response: the status code and the JSON body.\<close>

datatype body =
    Body_error string
  | Body_error_of go_error
  | Body_error_details string go_error
  | Body_error_deployment string DeploymentInfo
  | Body_DeploymentResponse DeploymentResponse

type_synonym response = "nat \<times> body"

text \<open>
  The handler takes the outcome of \<open>ShouldBindJSON\<close>: the decoded request or the
  decoding error. It calls \<open>DeployContract\<close> without metadata.
\<close>

definition Service_DeployContract ::
  "env \<Rightarrow> Service \<Rightarrow> go_error + Service_DeploymentRequest \<Rightarrow> call list \<times> response" where
  "Service_DeployContract e s bound =
     (case bound of
        Inl err \<Rightarrow> ([], (400, Body_error_of err))
      | Inr req \<Rightarrow>
         (case FindOne (contracts s) (ContractID req) of
            Inl err \<Rightarrow>
              if err = ErrNoDocuments
              then ([Call_FindOne (ContractID req)], (404, Body_error ''Contract not found''))
              else ([Call_FindOne (ContractID req)],
                    (500, Body_error ''Failed to retrieve contract''))
          | Inr contract \<Rightarrow>
              if OwnerID contract \<noteq> DeployerID req
              then ([Call_FindOne (ContractID req)],
                    (403, Body_error ''You don't have permission to deploy this contract''))
              else
                (let chain_id = (if ChainID_s req = 0 then 1 else ChainID_s req);
                     gasLimit = (if GasLimit_s req = 0 then 4000000 else GasLimit_s req)
                 in case DeployContract e (ethClient s)
                           \<lparr>ContractCode = ContractCode_doc contract,
                            ConstructorArguments = Constructor req,
                            ChainID = chain_id,
                            GasLimit = gasLimit,
                            Metadata = None\<rparr> of
                      (t, Inl err) \<Rightarrow>
                        (Call_FindOne (ContractID req) # t,
                         (500, Body_error_details ''Failed to deploy contract'' err))
                    | (t, Inr deployResult) \<Rightarrow>
                        (let deploymentInfo =
                               \<lparr>info_tx_hash = TxHash deployResult,
                                info_contract_address = ContractAddress deployResult,
                                info_block_number = BlockNumber deployResult,
                                info_chain_id = chain_id,
                                info_deployer_id = DeployerID req,
                                info_gas_used = GasUsed deployResult,
                                info_gas_price = GasPrice deployResult\<rparr>;
                             t' = Call_FindOne (ContractID req) # t
                                    @ [Call_UpdateOne (ContractID req) deploymentInfo];
                             failed =
                               (case UpdateOne (contracts s) (ContractID req) deploymentInfo of
                                  Inl err \<Rightarrow> True
                                | Inr ModifiedCount \<Rightarrow> ModifiedCount = 0)
                         in if failed
                            then (t', (500, Body_error_deployment
                                        ''Contract deployed but failed to update database''
                                        deploymentInfo))
                            else (t', (200, Body_DeploymentResponse
                                        \<lparr>TxHash_resp = TxHash deployResult,
                                         ContractAddress_resp = ContractAddress deployResult,
                                         Cost_resp = Cost deployResult,
                                         BlockNumber_resp = BlockNumber deployResult\<rparr>))))))"

section \<open>Properties of traces\<close>

text \<open>
  \<open>trace_all P m\<close>: every call of the run \<open>m\<close> satisfies \<open>P\<close>.
  \<open>io_rel P m\<close>: every call of the run \<open>m\<close> is related by \<open>P\<close> to the outcome of the run.
\<close>

definition trace_all :: "(call \<Rightarrow> bool) \<Rightarrow> 'a io \<Rightarrow> bool" where
  "trace_all P m = list_all P (fst m)"

definition io_rel :: "(call \<Rightarrow> go_error + 'a \<Rightarrow> bool) \<Rightarrow> 'a io \<Rightarrow> bool" where
  "io_rel P m = list_all (\<lambda>x. P x (snd m)) (fst m)"

text \<open>
  The calls of the Transaction Builder and of the Broadcaster: resolving the key, fetching
  the nonce and the gas price, signing, submitting and waiting for the receipt.
\<close>

fun builder_call :: "call \<Rightarrow> bool" where
  "builder_call (Call_Getenv k) = True"
| "builder_call (Call_PendingNonceAt a) = True"
| "builder_call Call_SuggestGasPrice = True"
| "builder_call (Call_SignTx t cid k) = True"
| "builder_call (Call_SendTransaction t) = True"
| "builder_call (Call_WaitMined t) = True"
| "builder_call x = False"

section \<open>Concrete runs\<close>

text \<open>
  A small world on which the functions are evaluated: a source that compiles to a contract
  \<open>Token\<close> and an interface \<open>IToken\<close> without bytecode, a node at block 112 and a
  receipt in block 100.
\<close>

definition demo_contracts :: contract_map where
  "demo_contracts =
     [(''Token'', \<lparr>Code = ''6080'', AbiDefinition = AList []\<rparr>),
      (''IToken'', \<lparr>Code = '''', AbiDefinition = AList []\<rparr>)]"

definition demo_env :: env where
  "demo_env =
     \<lparr>CreateTemp = None,
      WriteString = (\<lambda>s. None),
      Close = None,
      CompileSolidity = (\<lambda>s. Inr demo_contracts),
      range_order = (\<lambda>n m. if n = 0 then m else rev m),
      Getenv = (\<lambda>k. ''0x01''),
      HexToECDSA = (\<lambda>s. Inr [1]),
      PublicECDSA = (\<lambda>k. Some [2]),
      PubkeyToAddress = (\<lambda>p. [3]),
      Marshal = (\<lambda>a. Inr ''[]''),
      abi_JSON = (\<lambda>s. Inr s),
      Pack = (\<lambda>a n args. Inr [0, 5]),
      Unmarshal = (\<lambda>s. Inr [ANumber 5]),
      FromHex = (\<lambda>s. if s = ''6080'' then [0x60, 0x80] else []),
      NewKeyedTransactorWithChainID = (\<lambda>k n. None),
      SignTx = (\<lambda>t n k. None),
      Hash_Hex = (\<lambda>t. ''0xaa''),
      Address_Hex = (\<lambda>a. ''0xcc''),
      HexToHash = (\<lambda>s. [0xaa]),
      HexToAddress = (\<lambda>s. [0xcc])\<rparr>"

definition demo_receipt :: Receipt where
  "demo_receipt =
     \<lparr>Status_r = 1, GasUsed_r = 21000, BlockNumber_r = 100, ContractAddress_r = [0xcc]\<rparr>"

definition demo_tx :: "byte list \<Rightarrow> Transaction" where
  "demo_tx d =
     \<lparr>tx_nonce = 7, tx_value = 0, tx_gasLimit = 3000000, tx_gasPrice = 20000000000,
      tx_data = d\<rparr>"

definition demo_signed :: "byte list \<Rightarrow> int \<Rightarrow> SignedTx" where
  "demo_signed d n = \<lparr>signed_tx = demo_tx d, signed_chainID = n, signed_key = [1]\<rparr>"

definition demo_node :: ethclient where
  "demo_node =
     \<lparr>PendingNonceAt = (\<lambda>a. Inr 7),
      SuggestGasPrice = Inr 20000000000,
      SendTransaction = (\<lambda>t. None),
      WaitMined = (\<lambda>t. Inr demo_receipt),
      TransactionReceipt = (\<lambda>h. Inr demo_receipt),
      HeaderByNumber = Inr \<lparr>Number = 112\<rparr>,
      TransactionByHash = (\<lambda>h. Inr (demo_tx [0x60, 0x80, 0, 5])),
      CodeAt = (\<lambda>a. Inr [0x60, 0x80, 0x01])\<rparr>"

definition demo_client :: Client where
  "demo_client = \<lparr>client = demo_node, chainID = 5\<rparr>"

definition demo_request :: DeploymentRequest where
  "demo_request =
     \<lparr>ContractCode = ''contract Token {}'',
      ConstructorArguments = ''[5]'',
      ChainID = 0,
      GasLimit = 3000000,
      Metadata = Some [''contractName'' \<mapsto> AString ''Token'']\<rparr>"

text \<open>The same node when the receipt wait times out, and when it knows no receipt.\<close>

definition slow_client :: Client where
  "slow_client =
     \<lparr>client = demo_node\<lparr>WaitMined := (\<lambda>t. Inl (New ''context deadline exceeded'')),
                           TransactionReceipt := (\<lambda>h. Inl NotFound)\<rparr>,
      chainID = 5\<rparr>"

text \<open>A node whose head (block 99) is behind the block of the receipt (block 100).\<close>

definition lagging_client :: Client where
  "lagging_client = \<lparr>client = demo_node\<lparr>HeaderByNumber := Inr \<lparr>Number = 99\<rparr>\<rparr>, chainID = 5\<rparr>"

text \<open>An address without code, and a toolchain that rejects the source.\<close>

definition empty_code_client :: Client where
  "empty_code_client = \<lparr>client = demo_node\<lparr>CodeAt := (\<lambda>a. Inr [])\<rparr>, chainID = 5\<rparr>"

definition failing_env :: env where
  "failing_env = demo_env\<lparr>CompileSolidity := (\<lambda>s. Inl (New ''ParserError: Expected ;''))\<rparr>"

definition empty_env :: env where
  "empty_env = demo_env\<lparr>CompileSolidity := (\<lambda>s. Inr [])\<rparr>"

text \<open>The service on a node of chain 5, and a request that names no chain.\<close>

definition demo_service :: Service where
  "demo_service =
     \<lparr>contracts =
        \<lparr>FindOne = (\<lambda>i. Inr \<lparr>OwnerID = ''alice'', ContractCode_doc = ''contract Token {}''\<rparr>),
         UpdateOne = (\<lambda>i d. Inr 1)\<rparr>,
      ethClient = demo_client\<rparr>"

definition demo_service_request :: Service_DeploymentRequest where
  "demo_service_request =
     \<lparr>ContractID = ''c1'', DeployerID = ''alice'', ChainID_s = 0, GasLimit_s = 3000000,
      Constructor = ''''\<rparr>"

text \<open>An address that holds code unrelated to the compiled contracts.\<close>

definition unrelated_code_client :: Client where
  "unrelated_code_client = \<lparr>client = demo_node\<lparr>CodeAt := (\<lambda>a. Inr [0xfe])\<rparr>, chainID = 5\<rparr>"

text \<open>A runtime whose loops all visit the compiled contracts in the same order.\<close>

definition in_order_env :: env where
  "in_order_env = demo_env\<lparr>range_order := (\<lambda>n m. m)\<rparr>"

section \<open>Proof rules for runs\<close>

lemmas io_defs = io_bind_def io_wrap_def io_return_def io_fail_def io_call_def io_lift_def
  io_check_def io_call_check_def

lemmas demo_defs = demo_env_def demo_node_def demo_client_def demo_request_def
  demo_contracts_def demo_receipt_def demo_tx_def demo_signed_def slow_client_def
  lagging_client_def empty_code_client_def failing_env_def empty_env_def demo_service_def
  demo_service_request_def in_order_env_def unrelated_code_client_def

lemma trace_all_iff: "trace_all P m \<longleftrightarrow> (\<forall>x\<in>set (fst m). P x)"
  by (simp add: trace_all_def list_all_iff)

lemma io_rel_iff: "io_rel P m \<longleftrightarrow> (\<forall>x\<in>set (fst m). P x (snd m))"
  by (simp add: io_rel_def list_all_iff)

lemma snd_io_wrap_Inr [simp]: "snd (io_wrap p m) = Inr v \<longleftrightarrow> snd m = Inr v"
  by (cases m; cases "snd m") (auto simp: io_wrap_def)

lemma snd_io_call [simp]: "snd (io_call c r) = r"
  by (simp add: io_call_def)

lemma snd_io_lift [simp]: "snd (io_lift r) = r"
  by (simp add: io_lift_def)

lemma snd_io_return [simp]: "snd (io_return v) = Inr v"
  by (simp add: io_return_def)

lemma snd_io_check_Inr [simp]: "snd (io_check r) = Inr v \<longleftrightarrow> r = None"
  by (simp add: io_check_def split: option.splits)

lemma snd_io_call_check_Inr [simp]: "snd (io_call_check c r) = Inr v \<longleftrightarrow> r = None"
  by (simp add: io_call_check_def split: option.splits)

lemma snd_io_bind_Inr:
  "snd (io_bind m f) = Inr w \<longleftrightarrow> (\<exists>v. snd m = Inr v \<and> snd (f v) = Inr w)"
  by (cases m; cases "snd m") (auto simp: io_bind_def split: prod.splits)

text \<open>A run of \<open>io_bind m f\<close>: the calls of \<open>m\<close>, then those of \<open>f\<close> if \<open>m\<close> succeeded.\<close>

lemma io_rel_bind:
  assumes "trace_all (\<lambda>x. \<forall>r. P x r) m"
    and "\<And>v. snd m = Inr v \<Longrightarrow> io_rel P (f v)"
  shows "io_rel P (io_bind m f)"
proof (cases m)
  case (Pair t r)
  show ?thesis
  proof (cases r)
    case (Inl err)
    with Pair assms(1) show ?thesis
      by (simp add: io_rel_def trace_all_def io_bind_def list_all_iff)
  next
    case (Inr v)
    with Pair assms(2)[of v] have "io_rel P (f v)" by simp
    with Pair Inr assms(1) show ?thesis
      by (auto simp: io_rel_def trace_all_def io_bind_def list_all_iff split: prod.splits)
  qed
qed

lemma io_rel_if:
  assumes "b \<Longrightarrow> io_rel P x" and "\<not> b \<Longrightarrow> io_rel P y"
  shows "io_rel P (if b then x else y)"
  using assms by simp

lemma io_rel_Let:
  assumes "io_rel P (f s)"
  shows "io_rel P (Let s f)"
  using assms by simp

lemma io_rel_case_prod:
  assumes "\<And>a b. p = (a, b) \<Longrightarrow> io_rel P (f a b)"
  shows "io_rel P (case p of (a, b) \<Rightarrow> f a b)"
  using assms by (cases p) simp

lemma io_rel_case_option:
  assumes "x = None \<Longrightarrow> io_rel P n" and "\<And>v. x = Some v \<Longrightarrow> io_rel P (s v)"
  shows "io_rel P (case x of None \<Rightarrow> n | Some v \<Rightarrow> s v)"
  using assms by (cases x) simp_all

lemma io_rel_case_sum:
  assumes "\<And>a. x = Inl a \<Longrightarrow> io_rel P (l a)" and "\<And>b. x = Inr b \<Longrightarrow> io_rel P (r b)"
  shows "io_rel P (case x of Inl a \<Rightarrow> l a | Inr b \<Rightarrow> r b)"
  using assms by (cases x) simp_all

lemma io_rel_fail: "io_rel P (io_fail err)"
  by (simp add: io_rel_def io_fail_def)

lemma trace_all_wrap: "trace_all P m \<Longrightarrow> trace_all P (io_wrap p m)"
  by (cases m; cases "snd m") (auto simp: trace_all_def io_wrap_def)

lemma trace_all_lift: "trace_all P (io_lift r)"
  by (simp add: trace_all_def io_lift_def)

lemma trace_all_return: "trace_all P (io_return r)"
  by (simp add: trace_all_def io_return_def)

lemma trace_all_check: "trace_all P (io_check r)"
  by (simp add: trace_all_def io_check_def split: option.splits)

lemma trace_all_call: "P c \<Longrightarrow> trace_all P (io_call c r)"
  by (simp add: trace_all_def io_call_def)

lemma trace_all_call_check: "P c \<Longrightarrow> trace_all P (io_call_check c r)"
  by (simp add: trace_all_def io_call_check_def split: option.splits)

lemma trace_all_if:
  assumes "b \<Longrightarrow> trace_all P x" and "\<not> b \<Longrightarrow> trace_all P y"
  shows "trace_all P (if b then x else y)"
  using assms by simp

lemma trace_all_bind:
  assumes "trace_all P m" and "\<And>v. snd m = Inr v \<Longrightarrow> trace_all P (f v)"
  shows "trace_all P (io_bind m f)"
  using assms
  by (cases m; cases "snd m")
     (auto simp: trace_all_def io_bind_def list_all_iff split: prod.splits)

lemma trace_all_CompileContract:
  assumes "P Call_CreateTemp" "P (Call_WriteString s)" "P Call_Close" "P Call_Remove"
    "P (Call_CompileSolidity s)"
  shows "trace_all P (CompileContract e s)"
  using assms by (simp add: trace_all_def CompileContract_def split: option.splits sum.splits)

lemma trace_all_GetPrivateKey:
  assumes "P (Call_Getenv ''ETH_PRIVATE_KEY'')"
  shows "trace_all P (GetPrivateKey e)"
  using assms by (simp add: trace_all_def GetPrivateKey_def Let_def split: sum.splits)

lemmas io_rel_intros = io_rel_bind io_rel_if io_rel_Let io_rel_case_prod io_rel_case_option
  io_rel_case_sum io_rel_fail

lemmas trace_all_intros = trace_all_wrap trace_all_lift trace_all_return trace_all_check
  trace_all_call trace_all_call_check trace_all_if trace_all_bind trace_all_CompileContract
  trace_all_GetPrivateKey

section \<open>The concrete runs, evaluated\<close>

lemma demo_compile:
  "CompileContract demo_env s =
     ([Call_CreateTemp, Call_WriteString s, Call_Close, Call_CompileSolidity s, Call_Remove],
      Inr demo_contracts)"
  by (simp add: CompileContract_def demo_env_def)

lemma demo_key: "GetPrivateKey demo_env = ([Call_Getenv ''ETH_PRIVATE_KEY''], Inr [1])"
  by (simp add: GetPrivateKey_def demo_env_def)

lemma demo_select:
  "select_contract demo_env demo_request demo_contracts =
     (''Token'', Some \<lparr>Code = ''6080'', AbiDefinition = AList []\<rparr>)"
  by (simp add: select_contract_def name_hint_def demo_defs sublist_code prefix_code)

lemma demo_run:
  "DeployContract demo_env demo_client demo_request =
     ([Call_CreateTemp, Call_WriteString ''contract Token {}'', Call_Close,
       Call_CompileSolidity ''contract Token {}'', Call_Remove,
       Call_Getenv ''ETH_PRIVATE_KEY'', Call_PendingNonceAt [3], Call_SuggestGasPrice,
       Call_SignTx (demo_tx [0x60, 0x80, 0, 5]) 5 [1],
       Call_SendTransaction (demo_signed [0x60, 0x80, 0, 5] 5),
       Call_WaitMined (demo_signed [0x60, 0x80, 0, 5] 5)],
      Inr \<lparr>TxHash = ''0xaa'', ContractAddress = ''0xcc'', BlockNumber = 100, GasUsed = 21000,
           GasPrice = Some 20000000000,
           Cost = Float64 (Quo (Mul (SetInt 20000000000) (SetUint64 21000))
                            (SetInt (10 ^ 18)))\<rparr>)"
  unfolding DeployContract_def demo_compile demo_key
  by (simp add: io_defs demo_select Let_def)
     (simp add: demo_defs Int64_def io_defs Let_def)

lemma slow_run:
  "DeployContract demo_env slow_client demo_request =
     ([Call_CreateTemp, Call_WriteString ''contract Token {}'', Call_Close,
       Call_CompileSolidity ''contract Token {}'', Call_Remove,
       Call_Getenv ''ETH_PRIVATE_KEY'', Call_PendingNonceAt [3], Call_SuggestGasPrice,
       Call_SignTx (demo_tx [0x60, 0x80, 0, 5]) 5 [1],
       Call_SendTransaction (demo_signed [0x60, 0x80, 0, 5] 5),
       Call_WaitMined (demo_signed [0x60, 0x80, 0, 5] 5)],
      Inr \<lparr>TxHash = ''0xaa'', ContractAddress = '''', BlockNumber = 0, GasUsed = 0,
           GasPrice = None, Cost = Float64_zero\<rparr>)"
  unfolding DeployContract_def demo_compile demo_key
  by (simp add: io_defs demo_select Let_def)
     (simp add: demo_defs io_defs Let_def)

section \<open>The receipt wait\<close>

lemma DeployContract_timeout_rel:
  "io_rel (\<lambda>x r. \<forall>stx err. x = Call_WaitMined stx \<longrightarrow> WaitMined (client c) stx = Inl err \<longrightarrow>
             r = Inr \<lparr>TxHash = Hash_Hex e stx, ContractAddress = '''', BlockNumber = 0,
                      GasUsed = 0, GasPrice = None, Cost = Float64_zero\<rparr>)
     (DeployContract e c req)"
  unfolding DeployContract_def
  by (intro io_rel_intros trace_all_intros) (simp_all add: io_rel_def)

text \<open>
  C1. When a run of \<open>DeployContract\<close> has reached the receipt wait for the signed
  transaction (so the transaction was submitted) and the wait fails, by a timeout or
  otherwise, the function returns no error but a \<open>DeploymentResult\<close> that holds the hash
  of the transaction and nothing else: the contract address is empty, block number and gas
  used are 0, the gas price is nil and the cost is 0. The hash is not empty, the library's
  rendering of a hash being not empty.
\<close>

theorem deploy_timeout_hash_only:
  assumes "Call_WaitMined signedTx \<in> set (fst (DeployContract e c req))"
    and "WaitMined (client c) signedTx = Inl err"
    and "Hash_Hex e signedTx \<noteq> ''''"
  shows "\<exists>r. snd (DeployContract e c req) = Inr r \<and> TxHash r = Hash_Hex e signedTx \<and>
           TxHash r \<noteq> '''' \<and> ContractAddress r = '''' \<and> BlockNumber r = 0 \<and> GasUsed r = 0 \<and>
           GasPrice r = None \<and> Cost r = Float64_zero"
  using assms DeployContract_timeout_rel[of c e req]
  by (auto simp: io_rel_iff)

theorem deploy_timeout_hash_only_witness:
  "Call_WaitMined (demo_signed [0x60, 0x80, 0, 5] 5)
     \<in> set (fst (DeployContract demo_env slow_client demo_request)) \<and>
   WaitMined (client slow_client) (demo_signed [0x60, 0x80, 0, 5] 5)
     = Inl (New ''context deadline exceeded'') \<and>
   (\<exists>r. snd (DeployContract demo_env slow_client demo_request) = Inr r \<and>
        TxHash r = ''0xaa'' \<and> TxHash r \<noteq> '''' \<and> ContractAddress r = '''' \<and>
        BlockNumber r = 0 \<and> GasUsed r = 0 \<and> GasPrice r = None \<and> Cost r = Float64_zero)"
proof -
  have h1: "Call_WaitMined (demo_signed [0x60, 0x80, 0, 5] 5)
              \<in> set (fst (DeployContract demo_env slow_client demo_request))"
    by (simp add: slow_run)
  have h2: "WaitMined (client slow_client) (demo_signed [0x60, 0x80, 0, 5] 5)
              = Inl (New ''context deadline exceeded'')"
    by (simp add: slow_client_def demo_node_def)
  have h3: "Hash_Hex demo_env (demo_signed [0x60, 0x80, 0, 5] 5) \<noteq> ''''"
    by (simp add: demo_env_def)
  have h4: "Hash_Hex demo_env (demo_signed [0x60, 0x80, 0, 5] 5) = ''0xaa''"
    by (simp add: demo_env_def)
  from deploy_timeout_hash_only[OF h1 h2 h3] h1 h2 h4 show ?thesis by simp
qed

section \<open>The status of a transaction\<close>

lemma GetTransactionStatus_pending:
  assumes "TransactionReceipt (client c) (HexToHash e txHash) = Inl NotFound"
  shows "GetTransactionStatus e c txHash =
           ([Call_TransactionReceipt (HexToHash e txHash)],
            Inr \<lparr>Status = ''pending'', BlockNumber_st = 0, Confirmations = 0,
                 GasUsed_st = 0, Cost_st = Float64_zero\<rparr>)"
  using assms by (simp add: GetTransactionStatus_def Let_def)

lemma GetTransactionStatus_mined:
  assumes "TransactionReceipt (client c) (HexToHash e txHash) = Inr receipt"
    and "HeaderByNumber (client c) = Inr header"
    and "TransactionByHash (client c) (HexToHash e txHash) = Inr tx"
  shows "snd (GetTransactionStatus e c txHash) =
           Inr \<lparr>Status = (if Status_r receipt = 1 then ''success'' else ''failed''),
                BlockNumber_st = Uint64 (BlockNumber_r receipt),
                Confirmations = Uint64 (Number header) - Uint64 (BlockNumber_r receipt),
                GasUsed_st = GasUsed_r receipt,
                Cost_st = Float64 (Quo (Mul (SetInt (tx_gasPrice tx))
                                          (SetUint64 (GasUsed_r receipt)))
                                     (SetInt (10 ^ 18)))\<rparr>"
  using assms by (simp add: GetTransactionStatus_def Let_def)

lemma unat_Uint64: "n < 2 ^ 64 \<Longrightarrow> unat (Uint64 n) = n"
  by (simp add: Uint64_def unat_of_nat)

lemma Uint64_diff:
  assumes "m \<le> n" and "n < 2 ^ 64"
  shows "unat (Uint64 n - Uint64 m) = n - m"
  using assms by (simp add: unat_sub_if_size unat_Uint64)

lemma Uint64_diff_wrap:
  assumes "n < m" and "m < 2 ^ 64"
  shows "unat (Uint64 n - Uint64 m) = 2 ^ 64 - (m - n)"
  using assms by (simp add: unat_sub_if_size unat_Uint64 word_size)

text \<open>
  C2. Whatever the hash: when the node knows no receipt for it
  (\<open>ethereum.NotFound\<close>), \<open>GetTransactionStatus\<close> returns no error but the status
  \<open>pending\<close> with 0 confirmations. When the node has a receipt, and answers the
  queries for the head block and the transaction, the status is \<open>success\<close> if the status
  flag of the receipt is 1 and \<open>failed\<close> otherwise, and the confirmations are the number of
  the head block minus the block number of the receipt, as unsigned 64-bit numbers; that
  is their difference as natural numbers when the receipt's block is not beyond the head.
\<close>

theorem status_pending_or_mined:
  "(TransactionReceipt (client c) (HexToHash e txHash) = Inl NotFound \<longrightarrow>
      (\<exists>st. snd (GetTransactionStatus e c txHash) = Inr st \<and>
            Status st = ''pending'' \<and> Confirmations st = 0)) \<and>
   (TransactionReceipt (client c) (HexToHash e txHash) = Inr receipt \<and>
    HeaderByNumber (client c) = Inr header \<and>
    TransactionByHash (client c) (HexToHash e txHash) = Inr tx \<longrightarrow>
      (\<exists>st. snd (GetTransactionStatus e c txHash) = Inr st \<and>
            Status st = (if Status_r receipt = 1 then ''success'' else ''failed'') \<and>
            Confirmations st = Uint64 (Number header) - Uint64 (BlockNumber_r receipt) \<and>
            (BlockNumber_r receipt \<le> Number header \<and> Number header < 2 ^ 64 \<longrightarrow>
               unat (Confirmations st) = Number header - BlockNumber_r receipt)))"
  by (auto simp: GetTransactionStatus_pending GetTransactionStatus_mined Uint64_diff)

theorem status_pending_or_mined_witness:
  "TransactionReceipt (client slow_client) (HexToHash demo_env ''0xaa'') = Inl NotFound \<and>
   (\<exists>st. snd (GetTransactionStatus demo_env slow_client ''0xaa'') = Inr st \<and>
         Status st = ''pending'' \<and> Confirmations st = 0) \<and>
   TransactionReceipt (client demo_client) (HexToHash demo_env ''0xaa'') = Inr demo_receipt \<and>
   HeaderByNumber (client demo_client) = Inr \<lparr>Number = 112\<rparr> \<and>
   TransactionByHash (client demo_client) (HexToHash demo_env ''0xaa'')
     = Inr (demo_tx [0x60, 0x80, 0, 5]) \<and>
   (\<exists>st. snd (GetTransactionStatus demo_env demo_client ''0xaa'') = Inr st \<and>
         Status st = ''success'' \<and> unat (Confirmations st) = 12)"
proof -
  have p: "TransactionReceipt (client slow_client) (HexToHash demo_env ''0xaa'') = Inl NotFound"
    by (simp add: slow_client_def demo_node_def)
  have m: "TransactionReceipt (client demo_client) (HexToHash demo_env ''0xaa'')
             = Inr demo_receipt"
    "HeaderByNumber (client demo_client) = Inr \<lparr>Number = 112\<rparr>"
    "TransactionByHash (client demo_client) (HexToHash demo_env ''0xaa'')
       = Inr (demo_tx [0x60, 0x80, 0, 5])"
    by (simp_all add: demo_client_def demo_node_def)
  have r: "Status_r demo_receipt = 1" "BlockNumber_r demo_receipt = 100"
    by (simp_all add: demo_receipt_def)
  from status_pending_or_mined[of slow_client demo_env "''0xaa''" demo_receipt
      "\<lparr>Number = 112\<rparr>" "demo_tx [0x60, 0x80, 0, 5]"] p
  have 1: "\<exists>st. snd (GetTransactionStatus demo_env slow_client ''0xaa'') = Inr st \<and>
         Status st = ''pending'' \<and> Confirmations st = 0"
    by blast
  from status_pending_or_mined[of demo_client demo_env "''0xaa''" demo_receipt
      "\<lparr>Number = 112\<rparr>" "demo_tx [0x60, 0x80, 0, 5]"] m r
  have 2: "\<exists>st. snd (GetTransactionStatus demo_env demo_client ''0xaa'') = Inr st \<and>
         Status st = ''success'' \<and> unat (Confirmations st) = 12"
    by auto
  from p m 1 2 show ?thesis by blast
qed

text \<open>
  C10. The confirmations are an unguarded unsigned 64-bit subtraction. When the node
  has a receipt whose block number is beyond the number of the head block,
  \<open>GetTransactionStatus\<close> returns no error and no zero: the difference wraps modulo
  \<open>2 ^ 64\<close>, and the confirmations reported are \<open>2 ^ 64\<close> minus the distance of the
  two blocks.
\<close>

theorem confirmations_wrap:
  assumes "TransactionReceipt (client c) (HexToHash e txHash) = Inr receipt"
    and "HeaderByNumber (client c) = Inr header"
    and "TransactionByHash (client c) (HexToHash e txHash) = Inr tx"
    and "Number header < BlockNumber_r receipt"
    and "BlockNumber_r receipt < 2 ^ 64"
  shows "\<exists>st. snd (GetTransactionStatus e c txHash) = Inr st \<and>
           Confirmations st = Uint64 (Number header) - Uint64 (BlockNumber_r receipt) \<and>
           unat (Confirmations st) = 2 ^ 64 - (BlockNumber_r receipt - Number header) \<and>
           Confirmations st \<noteq> 0"
proof -
  let ?d = "Uint64 (Number header) - Uint64 (BlockNumber_r receipt)"
  have u: "unat ?d = 2 ^ 64 - (BlockNumber_r receipt - Number header)"
    using assms(4,5) by (rule Uint64_diff_wrap)
  have "BlockNumber_r receipt - Number header < 2 ^ 64" using assms(5) by simp
  with u have "unat ?d \<noteq> 0" by simp
  then have "?d \<noteq> 0" by auto
  with u GetTransactionStatus_mined[OF assms(1,2,3)] show ?thesis by simp
qed

theorem confirmations_wrap_witness:
  "Number \<lparr>Number = 99\<rparr> < BlockNumber_r demo_receipt \<and>
   (\<exists>st. snd (GetTransactionStatus demo_env lagging_client ''0xaa'') = Inr st \<and>
         unat (Confirmations st) = 18446744073709551615)"
proof -
  have m: "TransactionReceipt (client lagging_client) (HexToHash demo_env ''0xaa'')
             = Inr demo_receipt"
    "HeaderByNumber (client lagging_client) = Inr \<lparr>Number = 99\<rparr>"
    "TransactionByHash (client lagging_client) (HexToHash demo_env ''0xaa'')
       = Inr (demo_tx [0x60, 0x80, 0, 5])"
    by (simp_all add: lagging_client_def demo_node_def)
  have r: "Number \<lparr>Number = 99\<rparr> < BlockNumber_r demo_receipt"
    "BlockNumber_r demo_receipt < 2 ^ 64" "BlockNumber_r demo_receipt = 100"
    by (simp_all add: demo_receipt_def)
  from confirmations_wrap[OF m r(1,2)] r show ?thesis by auto
qed

section \<open>The cost of a mined transaction\<close>




section \<open>Compile errors\<close>

lemma fst_io_wrap [simp]: "fst (io_wrap p m) = fst m"
  by (cases m; cases "snd m") (auto simp: io_wrap_def)

lemma snd_io_wrap_Inl [simp]: "snd (io_wrap p m) = Inl err' \<longleftrightarrow> (\<exists>err. snd m = Inl err \<and> err' = Errorf p err)"
  by (cases m; cases "snd m") (auto simp: io_wrap_def)

lemma io_bind_Inl: "snd m = Inl err \<Longrightarrow> io_bind m f = (fst m, Inl err)"
  by (cases m) (simp add: io_bind_def)

lemma io_bind_Inr: "snd m = Inr v \<Longrightarrow> io_bind m f = (fst m @ fst (f v), snd (f v))"
  by (cases m) (simp add: io_bind_def split: prod.splits)

lemma CompileContract_no_builder_call: "\<forall>x\<in>set (fst (CompileContract e s)). \<not> builder_call x"
  by (simp add: CompileContract_def split: option.splits sum.splits)

text \<open>
  C7. When \<open>CompileContract\<close> fails on the source of the request, \<open>DeployContract\<close>
  returns the error \<open>compilation failed\<close> that wraps it; when it yields no contract,
  \<open>DeployContract\<close> returns the error \<open>no contracts found in source code\<close>. In both
  cases the run makes the calls of \<open>CompileContract\<close> and no other: the key is not
  resolved, neither nonce nor gas price is fetched, nothing is signed or submitted.
\<close>

theorem compile_error_stops_deploy:
  "(snd (CompileContract e (ContractCode req)) = Inl err \<longrightarrow>
      snd (DeployContract e c req) = Inl (Errorf ''compilation failed: '' err) \<and>
      fst (DeployContract e c req) = fst (CompileContract e (ContractCode req)) \<and>
      (\<forall>x\<in>set (fst (DeployContract e c req)). \<not> builder_call x)) \<and>
   (snd (CompileContract e (ContractCode req)) = Inr [] \<longrightarrow>
      snd (DeployContract e c req) = Inl (New ''no contracts found in source code'') \<and>
      fst (DeployContract e c req) = fst (CompileContract e (ContractCode req)) \<and>
      (\<forall>x\<in>set (fst (DeployContract e c req)). \<not> builder_call x))"
proof (intro conjI impI)
  assume a: "snd (CompileContract e (ContractCode req)) = Inl err"
  have "snd (io_wrap ''compilation failed: '' (CompileContract e (ContractCode req)))
          = Inl (Errorf ''compilation failed: '' err)"
    using a by simp
  then have d: "DeployContract e c req =
              (fst (CompileContract e (ContractCode req)), Inl (Errorf ''compilation failed: '' err))"
    unfolding DeployContract_def by (simp add: io_bind_Inl)
  show "snd (DeployContract e c req) = Inl (Errorf ''compilation failed: '' err)"
    and "fst (DeployContract e c req) = fst (CompileContract e (ContractCode req))"
    and "\<forall>x\<in>set (fst (DeployContract e c req)). \<not> builder_call x"
    using d CompileContract_no_builder_call[of e "ContractCode req"] by simp_all
next
  assume a: "snd (CompileContract e (ContractCode req)) = Inr []"
  have "snd (io_wrap ''compilation failed: '' (CompileContract e (ContractCode req))) = Inr []"
    using a by simp
  then have d: "DeployContract e c req =
              (fst (CompileContract e (ContractCode req)),
               Inl (New ''no contracts found in source code''))"
    unfolding DeployContract_def by (simp add: io_bind_Inr io_fail_def)
  show "snd (DeployContract e c req) = Inl (New ''no contracts found in source code'')"
    and "fst (DeployContract e c req) = fst (CompileContract e (ContractCode req))"
    and "\<forall>x\<in>set (fst (DeployContract e c req)). \<not> builder_call x"
    using d CompileContract_no_builder_call[of e "ContractCode req"] by simp_all
qed

theorem compile_error_stops_deploy_witness:
  "snd (CompileContract failing_env (ContractCode demo_request))
     = Inl (Errorf ''compilation failed: '' (New ''ParserError: Expected ;'')) \<and>
   DeployContract failing_env demo_client demo_request =
     ([Call_CreateTemp, Call_WriteString ''contract Token {}'', Call_Close,
       Call_CompileSolidity ''contract Token {}'', Call_Remove],
      Inl (Errorf ''compilation failed: ''
             (Errorf ''compilation failed: '' (New ''ParserError: Expected ;'')))) \<and>
   snd (CompileContract empty_env (ContractCode demo_request)) = Inr [] \<and>
   DeployContract empty_env demo_client demo_request =
     ([Call_CreateTemp, Call_WriteString ''contract Token {}'', Call_Close,
       Call_CompileSolidity ''contract Token {}'', Call_Remove],
      Inl (New ''no contracts found in source code''))"
proof -
  have f: "CompileContract failing_env (ContractCode demo_request) =
     ([Call_CreateTemp, Call_WriteString ''contract Token {}'', Call_Close,
       Call_CompileSolidity ''contract Token {}'', Call_Remove],
      Inl (Errorf ''compilation failed: '' (New ''ParserError: Expected ;'')))"
    by (simp add: CompileContract_def failing_env_def demo_env_def demo_request_def)
  have z: "CompileContract empty_env (ContractCode demo_request) =
     ([Call_CreateTemp, Call_WriteString ''contract Token {}'', Call_Close,
       Call_CompileSolidity ''contract Token {}'', Call_Remove], Inr [])"
    by (simp add: CompileContract_def empty_env_def demo_env_def demo_request_def)
  have f': "snd (CompileContract failing_env (ContractCode demo_request))
     = Inl (Errorf ''compilation failed: '' (New ''ParserError: Expected ;''))"
    using f by simp
  have z': "snd (CompileContract empty_env (ContractCode demo_request)) = Inr []"
    using z by simp
  from compile_error_stops_deploy[of failing_env demo_request
      "Errorf ''compilation failed: '' (New ''ParserError: Expected ;'')" demo_client] f'
  have 1: "snd (DeployContract failing_env demo_client demo_request)
             = Inl (Errorf ''compilation failed: ''
                 (Errorf ''compilation failed: '' (New ''ParserError: Expected ;'')))"
    "fst (DeployContract failing_env demo_client demo_request)
       = fst (CompileContract failing_env (ContractCode demo_request))"
    by blast+
  from compile_error_stops_deploy[of empty_env demo_request _ demo_client] z'
  have 2: "snd (DeployContract empty_env demo_client demo_request)
             = Inl (New ''no contracts found in source code'')"
    "fst (DeployContract empty_env demo_client demo_request)
       = fst (CompileContract empty_env (ContractCode demo_request))"
    by blast+
  from 1 2 f z f' z' show ?thesis by (simp add: prod_eq_iff)
qed

section \<open>The chain ID of the signed transaction\<close>

lemma DeployContract_chain_rel:
  "io_rel (\<lambda>x r.
       (\<forall>t cid k. x = Call_SignTx t cid k \<longrightarrow>
          cid = (if ChainID req = 0 then chainID c else ChainID req)) \<and>
       (\<forall>stx. x = Call_SendTransaction stx \<longrightarrow>
          signed_chainID stx = (if ChainID req = 0 then chainID c else ChainID req)))
     (DeployContract e c req)"
  unfolding DeployContract_def
  by (intro io_rel_intros trace_all_intros) (simp_all add: io_rel_def)

lemma DeployContract_SignTx_chain:
  assumes "Call_SignTx t cid k \<in> set (fst (DeployContract e c req))"
  shows "cid = (if ChainID req = 0 then chainID c else ChainID req)"
  using DeployContract_chain_rel[of req c e, unfolded io_rel_iff, rule_format, OF assms]
  by simp

lemma DeployContract_SendTransaction_chain:
  assumes "Call_SendTransaction stx \<in> set (fst (DeployContract e c req))"
  shows "signed_chainID stx = (if ChainID req = 0 then chainID c else ChainID req)"
  using DeployContract_chain_rel[of req c e, unfolded io_rel_iff, rule_format, OF assms]
  by simp

lemma Service_DeployContract_trace:
  assumes "x \<in> set (fst (Service_DeployContract e s (Inr sreq)))"
    and "\<forall>i. x \<noteq> Call_FindOne i" and "\<forall>i d. x \<noteq> Call_UpdateOne i d"
  shows "\<exists>contract. FindOne (contracts s) (ContractID sreq) = Inr contract \<and>
           x \<in> set (fst (DeployContract e (ethClient s)
             \<lparr>ContractCode = ContractCode_doc contract,
              ConstructorArguments = Constructor sreq,
              ChainID = (if ChainID_s sreq = 0 then 1 else ChainID_s sreq),
              GasLimit = (if GasLimit_s sreq = 0 then 4000000 else GasLimit_s sreq),
              Metadata = None\<rparr>))"
proof (cases "FindOne (contracts s) (ContractID sreq)")
  case (Inl err)
  with assms show ?thesis
    by (auto simp: Service_DeployContract_def split: if_splits)
next
  case (Inr contract)
  define req where "req =
     \<lparr>ContractCode = ContractCode_doc contract,
      ConstructorArguments = Constructor sreq,
      ChainID = (if ChainID_s sreq = 0 then 1 else ChainID_s sreq),
      GasLimit = (if GasLimit_s sreq = 0 then 4000000 else GasLimit_s sreq),
      Metadata = None\<rparr>"
  obtain t r where d: "DeployContract e (ethClient s) req = (t, r)"
    by fastforce
  have "fst (Service_DeployContract e s (Inr sreq)) = [Call_FindOne (ContractID sreq)] \<or>
        (\<exists>u. fst (Service_DeployContract e s (Inr sreq)) = Call_FindOne (ContractID sreq) # t @ u \<and>
             (u = [] \<or> (\<exists>i. u = [Call_UpdateOne (ContractID sreq) i])))"
    using Inr d[unfolded req_def]
    by (cases r) (simp_all add: Service_DeployContract_def Let_def)
  with assms have "x \<in> set t"
    by auto
  with d have "x \<in> set (fst (DeployContract e (ethClient s) req))"
    by simp
  with Inr show ?thesis
    unfolding req_def by blast
qed

lemma service_run:
  "Service_DeployContract in_order_env demo_service (Inr demo_service_request) =
     ([Call_FindOne ''c1'',
       Call_CreateTemp, Call_WriteString ''contract Token {}'', Call_Close,
       Call_CompileSolidity ''contract Token {}'', Call_Remove,
       Call_Getenv ''ETH_PRIVATE_KEY'', Call_PendingNonceAt [3], Call_SuggestGasPrice,
       Call_SignTx (demo_tx [0x60, 0x80]) 1 [1],
       Call_SendTransaction (demo_signed [0x60, 0x80] 1),
       Call_WaitMined (demo_signed [0x60, 0x80] 1),
       Call_UpdateOne ''c1''
         \<lparr>info_tx_hash = ''0xaa'', info_contract_address = ''0xcc'', info_block_number = 100,
          info_chain_id = 1, info_deployer_id = ''alice'', info_gas_used = 21000,
          info_gas_price = Some 20000000000\<rparr>],
      (200, Body_DeploymentResponse
              \<lparr>TxHash_resp = ''0xaa'', ContractAddress_resp = ''0xcc'',
               Cost_resp = Float64 (Quo (Mul (SetInt 20000000000) (SetUint64 21000))
                                      (SetInt (10 ^ 18))),
               BlockNumber_resp = 100\<rparr>))"
  by (simp add: Service_DeployContract_def DeployContract_def CompileContract_def
      GetPrivateKey_def select_contract_def name_hint_def io_defs demo_defs Int64_def Let_def)

text \<open>
  C3, as the code has it. In \<open>DeployContract\<close> the chain ID given to the signer, and
  bound into the transaction that is submitted, is the chain ID of the request when that is
  not 0 and the chain ID of the client, resolved when it connected, when the request says 0.
  The HTTP handler \<open>Service.DeployContract\<close> replaces a chain ID 0 of its own request by
  1 (Ethereum mainnet) before it calls \<open>DeployContract\<close>: a transaction it signs is bound
  to the chain ID of the request when that is not 0, and to 1 otherwise.
\<close>

theorem chain_id_binding:
  "(Call_SignTx t cid k \<in> set (fst (DeployContract e c req)) \<longrightarrow>
      cid = (if ChainID req = 0 then chainID c else ChainID req)) \<and>
   (Call_SendTransaction stx \<in> set (fst (DeployContract e c req)) \<longrightarrow>
      signed_chainID stx = (if ChainID req = 0 then chainID c else ChainID req)) \<and>
   (Call_SignTx t' cid' k' \<in> set (fst (Service_DeployContract e s (Inr sreq))) \<longrightarrow>
      cid' = (if ChainID_s sreq = 0 then 1 else ChainID_s sreq)) \<and>
   (Call_SendTransaction stx' \<in> set (fst (Service_DeployContract e s (Inr sreq))) \<longrightarrow>
      signed_chainID stx' = (if ChainID_s sreq = 0 then 1 else ChainID_s sreq))"
proof (intro conjI impI)
  assume "Call_SignTx t cid k \<in> set (fst (DeployContract e c req))"
  then show "cid = (if ChainID req = 0 then chainID c else ChainID req)"
    by (rule DeployContract_SignTx_chain)
next
  assume "Call_SendTransaction stx \<in> set (fst (DeployContract e c req))"
  then show "signed_chainID stx = (if ChainID req = 0 then chainID c else ChainID req)"
    by (rule DeployContract_SendTransaction_chain)
next
  assume "Call_SignTx t' cid' k' \<in> set (fst (Service_DeployContract e s (Inr sreq)))"
  from Service_DeployContract_trace[OF this]
  obtain contract :: Contract_doc where "Call_SignTx t' cid' k' \<in> set (fst (DeployContract e (ethClient s)
             \<lparr>ContractCode = ContractCode_doc contract,
              ConstructorArguments = Constructor sreq,
              ChainID = (if ChainID_s sreq = 0 then 1 else ChainID_s sreq),
              GasLimit = (if GasLimit_s sreq = 0 then 4000000 else GasLimit_s sreq),
              Metadata = None\<rparr>))"
    by auto
  from DeployContract_SignTx_chain[OF this]
  show "cid' = (if ChainID_s sreq = 0 then 1 else ChainID_s sreq)"
    by (simp split: if_splits)
next
  assume "Call_SendTransaction stx' \<in> set (fst (Service_DeployContract e s (Inr sreq)))"
  from Service_DeployContract_trace[OF this]
  obtain contract :: Contract_doc where "Call_SendTransaction stx' \<in> set (fst (DeployContract e (ethClient s)
             \<lparr>ContractCode = ContractCode_doc contract,
              ConstructorArguments = Constructor sreq,
              ChainID = (if ChainID_s sreq = 0 then 1 else ChainID_s sreq),
              GasLimit = (if GasLimit_s sreq = 0 then 4000000 else GasLimit_s sreq),
              Metadata = None\<rparr>))"
    by auto
  from DeployContract_SendTransaction_chain[OF this]
  show "signed_chainID stx' = (if ChainID_s sreq = 0 then 1 else ChainID_s sreq)"
    by (simp split: if_splits)
qed

theorem chain_id_binding_witness:
  "Call_SignTx (demo_tx [0x60, 0x80, 0, 5]) 5 [1]
     \<in> set (fst (DeployContract demo_env demo_client demo_request)) \<and>
   Call_SendTransaction (demo_signed [0x60, 0x80, 0, 5] 5)
     \<in> set (fst (DeployContract demo_env demo_client demo_request)) \<and>
   Call_SignTx (demo_tx [0x60, 0x80]) 1 [1]
     \<in> set (fst (Service_DeployContract in_order_env demo_service (Inr demo_service_request))) \<and>
   Call_SendTransaction (demo_signed [0x60, 0x80] 1)
     \<in> set (fst (Service_DeployContract in_order_env demo_service (Inr demo_service_request))) \<and>
   (5::int) = (if ChainID demo_request = 0 then chainID demo_client else ChainID demo_request) \<and>
   signed_chainID (demo_signed [0x60, 0x80, 0, 5] 5)
     = (if ChainID demo_request = 0 then chainID demo_client else ChainID demo_request) \<and>
   (1::int) = (if ChainID_s demo_service_request = 0 then 1 else ChainID_s demo_service_request) \<and>
   signed_chainID (demo_signed [0x60, 0x80] 1)
     = (if ChainID_s demo_service_request = 0 then 1 else ChainID_s demo_service_request)"
proof -
  have h: "Call_SignTx (demo_tx [0x60, 0x80, 0, 5]) 5 [1]
             \<in> set (fst (DeployContract demo_env demo_client demo_request))"
    "Call_SendTransaction (demo_signed [0x60, 0x80, 0, 5] 5)
       \<in> set (fst (DeployContract demo_env demo_client demo_request))"
    "Call_SignTx (demo_tx [0x60, 0x80]) 1 [1]
       \<in> set (fst (Service_DeployContract in_order_env demo_service (Inr demo_service_request)))"
    "Call_SendTransaction (demo_signed [0x60, 0x80] 1)
       \<in> set (fst (Service_DeployContract in_order_env demo_service (Inr demo_service_request)))"
    by (simp_all add: demo_run service_run)
  from chain_id_binding[of "demo_tx [0x60, 0x80, 0, 5]" 5 "[1]" demo_env demo_client
      demo_request "demo_signed [0x60, 0x80, 0, 5] 5" "demo_tx [0x60, 0x80]" 1 "[1]"
      demo_service demo_service_request "demo_signed [0x60, 0x80] 1"]
    chain_id_binding[of "demo_tx [0x60, 0x80]" 1 "[1]" in_order_env demo_client
      demo_request "demo_signed [0x60, 0x80] 1" "demo_tx [0x60, 0x80]" 1 "[1]"
      demo_service demo_service_request "demo_signed [0x60, 0x80] 1"]
    h
  show ?thesis by blast
qed

text \<open>
  The claim C3 fails for the requests of the HTTP handler: the service of the example is
  connected to chain 5, its request carries the chain ID 0, and the transaction is signed
  for chain 1.
\<close>

theorem service_chain_id_counterexample:
  "ChainID_s demo_service_request = 0 \<and>
   chainID (ethClient demo_service) = 5 \<and>
   Call_SignTx (demo_tx [0x60, 0x80]) 1 [1]
     \<in> set (fst (Service_DeployContract in_order_env demo_service (Inr demo_service_request)))"
  by (simp add: service_run) (simp add: demo_defs)

section \<open>The payload of the deployment transaction\<close>

lemma DeployContract_payload_rel:
  "io_rel (\<lambda>x r. \<forall>stx. x = Call_SendTransaction stx \<longrightarrow>
       (\<exists>compiled name artifact abiText parsedAbi args.
          snd (CompileContract e (ContractCode req)) = Inr compiled \<and>
          select_contract e req compiled = (name, Some artifact) \<and>
          Marshal e (AbiDefinition artifact) = Inr abiText \<and>
          abi_JSON e abiText = Inr parsedAbi \<and>
          (if ConstructorArguments req = '''' then args = []
           else Unmarshal e (ConstructorArguments req) = Inr args) \<and>
          (if args = [] then tx_data (signed_tx stx) = FromHex e (Code artifact)
           else \<exists>packed. Pack e parsedAbi '''' args = Inr packed \<and>
                  tx_data (signed_tx stx) = FromHex e (Code artifact) @ packed)))
     (DeployContract e c req)"
  unfolding DeployContract_def
  apply (intro io_rel_intros trace_all_intros)
  apply (simp_all add: io_rel_def)
  apply (auto simp: snd_io_bind_Inr split: if_splits)
  done

text \<open>
  C5. The payload of every transaction that \<open>DeployContract\<close> submits is built from
  the artifact chosen among the compiled contracts and from the list of constructor
  arguments (empty when the request gives no argument text, decoded from that text
  otherwise): with no argument it is the bytecode of the artifact unchanged, with at least
  one argument it is the bytecode followed by the ABI encoding of the arguments.
\<close>

theorem payload_is_bytecode_then_arguments:
  assumes "Call_SendTransaction signedTx \<in> set (fst (DeployContract e c req))"
  shows "\<exists>compiled name artifact abiText parsedAbi args.
           snd (CompileContract e (ContractCode req)) = Inr compiled \<and>
           select_contract e req compiled = (name, Some artifact) \<and>
           Marshal e (AbiDefinition artifact) = Inr abiText \<and>
           abi_JSON e abiText = Inr parsedAbi \<and>
           (if ConstructorArguments req = '''' then args = []
            else Unmarshal e (ConstructorArguments req) = Inr args) \<and>
           (if args = [] then tx_data (signed_tx signedTx) = FromHex e (Code artifact)
            else \<exists>packed. Pack e parsedAbi '''' args = Inr packed \<and>
                   tx_data (signed_tx signedTx) = FromHex e (Code artifact) @ packed)"
  using DeployContract_payload_rel[of e req c, unfolded io_rel_iff, rule_format, OF assms refl]
  by blast

theorem payload_is_bytecode_then_arguments_witness:
  "Call_SendTransaction (demo_signed [0x60, 0x80, 0, 5] 5)
     \<in> set (fst (DeployContract demo_env demo_client demo_request)) \<and>
   (\<exists>artifact args packed.
      select_contract demo_env demo_request demo_contracts = (''Token'', Some artifact) \<and>
      FromHex demo_env (Code artifact) = [0x60, 0x80] \<and>
      Unmarshal demo_env (ConstructorArguments demo_request) = Inr args \<and> args \<noteq> [] \<and>
      Pack demo_env ''[]'' '''' args = Inr packed \<and> packed = [0, 5] \<and>
      tx_data (signed_tx (demo_signed [0x60, 0x80, 0, 5] 5)) = [0x60, 0x80] @ packed)"
proof -
  have h: "Call_SendTransaction (demo_signed [0x60, 0x80, 0, 5] 5)
             \<in> set (fst (DeployContract demo_env demo_client demo_request))"
    by (simp add: demo_run)
  have v: "ConstructorArguments demo_request \<noteq> ''''"
    "Unmarshal demo_env (ConstructorArguments demo_request) = Inr [ANumber 5]"
    "snd (CompileContract demo_env (ContractCode demo_request)) = Inr demo_contracts"
    "\<And>a. Marshal demo_env a = Inr ''[]''" "\<And>t. abi_JSON demo_env t = Inr t"
    "\<And>a n args. Pack demo_env a n args = Inr [0, 5]"
    "FromHex demo_env ''6080'' = [0x60, 0x80]"
    by (simp_all add: demo_compile) (simp_all add: demo_request_def demo_env_def)
  from payload_is_bytecode_then_arguments[OF h] v demo_select
  show ?thesis using h by auto
qed

section \<open>The choice of the contract\<close>

lemma find_first:
  assumes "\<forall>x\<in>set before. \<not> P x" and "P y"
  shows "find P (before @ y # rest) = Some y"
  using assms by (induction before) auto

lemma select_contract_by_hint:
  assumes "name_hint req \<noteq> ''''"
    and "range_order e 0 compiled = before @ (name, artifact) # rest"
    and "sublist (name_hint req) name"
    and "\<forall>(n, a)\<in>set before. \<not> sublist (name_hint req) n"
  shows "select_contract e req compiled = (name, Some artifact)"
proof -
  have "find (\<lambda>(n, a). sublist (name_hint req) n) (before @ (name, artifact) # rest)
          = Some (name, artifact)"
    using assms(3,4) by (intro find_first) auto
  with assms(1,2) show ?thesis
    by (simp add: select_contract_def)
qed

lemma select_contract_fallback:
  assumes "compiled \<noteq> []"
    and "set (range_order e 0 compiled) = set compiled"
    and "set (range_order e 1 compiled) = set compiled"
    and "name_hint req = '''' \<or> (\<forall>(n, a)\<in>set compiled. \<not> sublist (name_hint req) n)"
  shows "\<exists>name artifact. select_contract e req compiled = (name, Some artifact) \<and>
           (name, artifact) \<in> set compiled \<and>
           (name, artifact) = hd (range_order e 1 compiled)"
proof -
  obtain n a rest where r: "range_order e 1 compiled = (n, a) # rest"
    using assms(1,3) by (cases "range_order e 1 compiled") auto
  then have m: "(n, a) \<in> set compiled"
    using assms(3) by (metis list.set_intros(1))
  have "name_hint req \<noteq> '''' \<Longrightarrow>
          find (\<lambda>(n, a). sublist (name_hint req) n) (range_order e 0 compiled) = None"
    using assms(2,4) by (auto simp: find_None_iff)
  then have "select_contract e req compiled = (n, Some a)"
    using r by (cases "name_hint req = ''''") (simp_all add: select_contract_def)
  with m r show ?thesis by simp
qed

text \<open>
  C8. When the request carries a name hint (a non-empty string under the key
  \<open>contractName\<close> of its metadata), the contract chosen is the first, in the order in which
  the loop visits the compiled contracts, whose name contains the hint as a substring;
  characters are compared as they are, so the match is case-sensitive. When there is no
  hint, or no name contains it, and at least one contract was compiled, a single contract
  of the compilation is chosen (the first that the second loop visits).
\<close>

theorem select_first_match_or_any:
  "(name_hint req \<noteq> '''' \<and>
    range_order e 0 compiled = before @ (name, artifact) # rest \<and>
    sublist (name_hint req) name \<and>
    (\<forall>(n, a)\<in>set before. \<not> sublist (name_hint req) n) \<longrightarrow>
      select_contract e req compiled = (name, Some artifact)) \<and>
   (compiled \<noteq> [] \<and>
    (\<forall>i. set (range_order e i compiled) = set compiled) \<and>
    (name_hint req = '''' \<or> (\<forall>(n, a)\<in>set compiled. \<not> sublist (name_hint req) n)) \<longrightarrow>
      (\<exists>name' artifact'. select_contract e req compiled = (name', Some artifact') \<and>
         (name', artifact') \<in> set compiled))"
proof (intro conjI impI)
  assume "name_hint req \<noteq> '''' \<and>
    range_order e 0 compiled = before @ (name, artifact) # rest \<and>
    sublist (name_hint req) name \<and>
    (\<forall>(n, a)\<in>set before. \<not> sublist (name_hint req) n)"
  then show "select_contract e req compiled = (name, Some artifact)"
    using select_contract_by_hint[of req e compiled before name artifact rest] by blast
next
  assume a: "compiled \<noteq> [] \<and>
    (\<forall>i. set (range_order e i compiled) = set compiled) \<and>
    (name_hint req = '''' \<or> (\<forall>(n, a)\<in>set compiled. \<not> sublist (name_hint req) n))"
  then have "set (range_order e 0 compiled) = set compiled"
    and "set (range_order e 1 compiled) = set compiled"
    by blast+
  with a select_contract_fallback[of compiled e req]
  show "\<exists>name' artifact'. select_contract e req compiled = (name', Some artifact') \<and>
         (name', artifact') \<in> set compiled"
    by blast
qed

theorem select_first_match_or_any_witness:
  "name_hint demo_request = ''Token'' \<and>
   range_order demo_env 0 demo_contracts
     = [] @ (''Token'', \<lparr>Code = ''6080'', AbiDefinition = AList []\<rparr>)
          # [(''IToken'', \<lparr>Code = '''', AbiDefinition = AList []\<rparr>)] \<and>
   sublist ''Token'' ''Token'' \<and>
   select_contract demo_env demo_request demo_contracts
     = (''Token'', Some \<lparr>Code = ''6080'', AbiDefinition = AList []\<rparr>) \<and>
   name_hint (demo_request\<lparr>Metadata := None\<rparr>) = '''' \<and>
   (\<exists>name' artifact'.
      select_contract demo_env (demo_request\<lparr>Metadata := None\<rparr>) demo_contracts
        = (name', Some artifact') \<and>
      (name', artifact') \<in> set demo_contracts)"
proof -
  have h: "name_hint demo_request = ''Token''"
    "name_hint demo_request \<noteq> ''''"
    "range_order demo_env 0 demo_contracts
       = [] @ (''Token'', \<lparr>Code = ''6080'', AbiDefinition = AList []\<rparr>)
            # [(''IToken'', \<lparr>Code = '''', AbiDefinition = AList []\<rparr>)]"
    "sublist (name_hint demo_request) ''Token''"
    "\<forall>(n, a)\<in>set ([] :: contract_map). \<not> sublist (name_hint demo_request) n"
    by (simp_all add: name_hint_def demo_request_def demo_env_def demo_contracts_def)
  have g: "name_hint (demo_request\<lparr>Metadata := None\<rparr>) = ''''"
    "demo_contracts \<noteq> []"
    "\<forall>i. set (range_order demo_env i demo_contracts) = set demo_contracts"
    by (simp_all add: name_hint_def demo_env_def demo_contracts_def) auto
  note t1 = select_first_match_or_any[of demo_request demo_env demo_contracts "[]" "''Token''"
      "\<lparr>Code = ''6080'', AbiDefinition = AList []\<rparr>"
      "[(''IToken'', \<lparr>Code = '''', AbiDefinition = AList []\<rparr>)]"]
  note t2 = select_first_match_or_any[of "demo_request\<lparr>Metadata := None\<rparr>" demo_env
      demo_contracts "[]" "''Token''" "\<lparr>Code = ''6080'', AbiDefinition = AList []\<rparr>"
      "[(''IToken'', \<lparr>Code = '''', AbiDefinition = AList []\<rparr>)]"]
  from t1 h have 1: "select_contract demo_env demo_request demo_contracts
     = (''Token'', Some \<lparr>Code = ''6080'', AbiDefinition = AList []\<rparr>)"
    by blast
  from t2 g have 2: "\<exists>name' artifact'.
      select_contract demo_env (demo_request\<lparr>Metadata := None\<rparr>) demo_contracts
        = (name', Some artifact') \<and>
      (name', artifact') \<in> set demo_contracts"
    by blast
  from h g 1 2 show ?thesis by simp
qed

section \<open>Verification of the source of a deployed contract\<close>

lemma verify_loop_iff:
  "verify_loop e deployed xs \<longleftrightarrow>
     deployed \<noteq> [] \<and> (\<exists>(n, a)\<in>set xs. prefix (FromHex e (Code a)) deployed)"
  by (induction xs) (auto simp: Let_def)

lemma VerifyContractSource_result:
  "snd (VerifyContractSource e c addr src args) =
     (case snd (CompileContract e src) of
        Inl err \<Rightarrow> Inl (Errorf ''compilation failed: '' err)
      | Inr compiled \<Rightarrow>
         (case CodeAt (client c) (HexToAddress e addr) of
            Inl err \<Rightarrow> Inl (Errorf ''failed to get deployed bytecode: '' err)
          | Inr deployed \<Rightarrow> Inr (verify_loop e deployed (range_order e 0 compiled))))"
  by (cases "CompileContract e src")
     (auto simp: VerifyContractSource_def io_defs Let_def split: sum.splits prod.splits)

text \<open>
  C4, as the code has it. When a \<open>range\<close> visits exactly the entries of the map,
  \<open>VerifyContractSource\<close> returns an error when the compilation fails or when the
  bytecode at the address cannot be fetched, and in no other case; otherwise it returns
  true exactly when the bytecode at the address is not empty and the bytecode of some
  compiled artifact is a prefix of it, and false, without error, when that is not so.
\<close>

theorem verify_true_iff_prefix_of_nonempty_code:
  assumes "\<forall>m. set (range_order e 0 m) = set m"
  shows "snd (VerifyContractSource e c addr src args) =
     (case snd (CompileContract e src) of
        Inl err \<Rightarrow> Inl (Errorf ''compilation failed: '' err)
      | Inr compiled \<Rightarrow>
         (case CodeAt (client c) (HexToAddress e addr) of
            Inl err \<Rightarrow> Inl (Errorf ''failed to get deployed bytecode: '' err)
          | Inr deployed \<Rightarrow>
              Inr (deployed \<noteq> [] \<and>
                   (\<exists>(n, a)\<in>set compiled. prefix (FromHex e (Code a)) deployed))))"
  using assms
  by (simp add: VerifyContractSource_result verify_loop_iff split: sum.splits)

theorem verify_true_iff_prefix_of_nonempty_code_witness:
  "(\<forall>m. set (range_order in_order_env 0 m) = set m) \<and>
   snd (VerifyContractSource in_order_env demo_client ''0xcc'' ''contract Token {}'' '''')
     = Inr True \<and>
   snd (VerifyContractSource in_order_env empty_code_client ''0xcc'' ''contract Token {}'' '''')
     = Inr False"
proof -
  have h: "\<forall>m. set (range_order in_order_env 0 m) = set m"
    by (simp add: in_order_env_def)
  have c: "\<And>s. snd (CompileContract in_order_env s) = Inr demo_contracts"
    by (simp add: CompileContract_def in_order_env_def demo_env_def)
  have d: "CodeAt (client demo_client) (HexToAddress in_order_env ''0xcc'') = Inr [0x60, 0x80, 1]"
    "CodeAt (client empty_code_client) (HexToAddress in_order_env ''0xcc'') = Inr []"
    by (simp_all add: demo_client_def empty_code_client_def demo_node_def)
  have f: "FromHex in_order_env ''6080'' = [0x60, 0x80]"
    by (simp add: in_order_env_def demo_env_def)
  from verify_true_iff_prefix_of_nonempty_code[OF h, of demo_client "''0xcc''"
      "''contract Token {}''" "''''"] c d f
  have 1: "snd (VerifyContractSource in_order_env demo_client ''0xcc'' ''contract Token {}'' '''')
     = Inr True"
    by (simp add: demo_contracts_def)
  from verify_true_iff_prefix_of_nonempty_code[OF h, of empty_code_client "''0xcc''"
      "''contract Token {}''" "''''"] c d
  have 2: "snd (VerifyContractSource in_order_env empty_code_client ''0xcc''
             ''contract Token {}'' '''') = Inr False"
    by simp
  from h 1 2 show ?thesis by blast
qed

text \<open>
  The claim C4 fails at an address without code: the compiled interface has the empty
  bytecode, which is a prefix of the empty bytecode at the address, and the result is false.
\<close>

theorem verify_empty_code_counterexample:
  "snd (CompileContract demo_env ''contract Token {}'') = Inr demo_contracts \<and>
   (''IToken'', \<lparr>Code = '''', AbiDefinition = AList []\<rparr>) \<in> set demo_contracts \<and>
   CodeAt (client empty_code_client) (HexToAddress demo_env ''0xcc'') = Inr [] \<and>
   prefix (FromHex demo_env '''') [] \<and>
   VerifyContractSource demo_env empty_code_client ''0xcc'' ''contract Token {}'' '''' =
     ([Call_CreateTemp, Call_WriteString ''contract Token {}'', Call_Close,
       Call_CompileSolidity ''contract Token {}'', Call_Remove, Call_CodeAt [0xcc]],
      Inr False)"
  by (simp add: VerifyContractSource_def demo_compile io_defs)
     (simp add: demo_defs)

text \<open>
  C9. When the compilation of a source yields an artifact whose bytecode is empty, the
  address holds code that is not empty, and the loop visits every artifact,
  \<open>VerifyContractSource\<close> returns true, whatever the code at the address is.
\<close>

theorem empty_artifact_verifies_any_code:
  assumes "snd (CompileContract e src) = Inr compiled"
    and "(n, a) \<in> set compiled"
    and "FromHex e (Code a) = []"
    and "CodeAt (client c) (HexToAddress e addr) = Inr deployed"
    and "deployed \<noteq> []"
    and "set (range_order e 0 compiled) = set compiled"
  shows "snd (VerifyContractSource e c addr src args) = Inr True"
proof -
  have "prefix (FromHex e (Code a)) deployed"
    using assms(3) by simp
  with assms(2,5,6) have "verify_loop e deployed (range_order e 0 compiled)"
    unfolding verify_loop_iff by blast
  with assms(1,4) show ?thesis
    by (simp add: VerifyContractSource_result)
qed

theorem empty_artifact_verifies_any_code_witness:
  "snd (CompileContract demo_env ''interface IToken {}'') = Inr demo_contracts \<and>
   (''IToken'', \<lparr>Code = '''', AbiDefinition = AList []\<rparr>) \<in> set demo_contracts \<and>
   FromHex demo_env '''' = [] \<and>
   CodeAt (client unrelated_code_client) (HexToAddress demo_env ''0xcc'') = Inr [0xfe] \<and>
   \<not> prefix (FromHex demo_env ''6080'') [0xfe] \<and>
   snd (VerifyContractSource demo_env unrelated_code_client ''0xcc'' ''interface IToken {}'' '''')
     = Inr True"
proof -
  have h: "snd (CompileContract demo_env ''interface IToken {}'') = Inr demo_contracts"
    "(''IToken'', \<lparr>Code = '''', AbiDefinition = AList []\<rparr>) \<in> set demo_contracts"
    "FromHex demo_env (Code \<lparr>Code = '''', AbiDefinition = AList []\<rparr>) = []"
    "CodeAt (client unrelated_code_client) (HexToAddress demo_env ''0xcc'') = Inr [0xfe]"
    "[0xfe :: byte] \<noteq> []"
    "set (range_order demo_env 0 demo_contracts) = set demo_contracts"
    by (simp_all add: demo_compile)
       (simp_all add: demo_contracts_def demo_env_def unrelated_code_client_def demo_node_def)
  have g: "\<not> prefix (FromHex demo_env ''6080'') [0xfe]" "FromHex demo_env '''' = []"
    by (simp_all add: demo_env_def)
  from empty_artifact_verifies_any_code[OF h, of "''''"] h g show ?thesis by simp
qed

end
